theory Spec2Isabelle
  imports Main
begin

section \<open>The program\<close>

text \<open>
  The repository is one Python module, \<^verbatim>\<open>green/app.py\<close>:
  \<^verbatim>\<open>
  from flask import Flask

  app = Flask(__name__)

  @app.route("/")
  def hello_blue():
      return "<h1 style='color:blue'>Hello, green!</h1>"

  if __name__ == "__main__":
      app.run(host='0.0.0.0', port=5000)
  \<close>
  Two definitions are embedded from this source, statement by statement: \<open>hello_blue\<close>
  and \<open>module_body\<close>. Every other operation stands for code of the Flask and Werkzeug
  libraries or of the Python runtime, which is not under the repository's sources. Each
  such definition says so in its description, which starts with the words
  \<^emph>\<open>Modelled from the library\<close>, and follows the behaviour of the library as far as the
  module exercises it. What the library, the operating system and the clock decide
  outside the module (whether a socket can be bound, the environment variable the library
  consults, the texts the library prints and serves, the files under the static folder,
  the time) is a parameter of the model, the record \<open>env\<close>, and every theorem holds for
  every value of it.
\<close>

subsection \<open>Requests, responses, exceptions\<close>

type_synonym host = string
type_synonym port = int

text \<open>
  A request as the server hands it to the application. \<open>req_method\<close> is the method as
  the library presents it (\<open>request.method\<close>, in upper case). \<open>req_path\<close> is the raw
  path of the request target, without the query string (\<open>PATH_INFO\<close>): it is what the
  URL map matches. \<open>req_headers\<close> are the header entries of the request environment,
  under their keys there (\<open>HTTP_ACCEPT\<close>, \<open>HTTP_UPGRADE\<close>).
\<close>

record request =
  req_method :: string
  req_path :: string
  req_query_string :: string
  req_headers :: "(string \<times> string) list"
  req_data :: string



text \<open>
  A response as the application produces it: the status, the content type, the methods
  of the \<open>Allow\<close> header and the body. The target of a redirect is carried by the
  exception that causes it.
\<close>

record response =
  status_code :: int
  mimetype :: string
  allow :: "string set"
  resp_data :: string

text \<open>
  What the server sends for a request: the response of the application under the
  \<open>Date\<close> header the server adds.
\<close>

record reply =
  reply_date :: string
  reply_response :: response

datatype exn =
    NotFound
  | MethodNotAllowed "string set"
  | RequestRedirect string
  | AssertionError string
  | KeyError string
  | TypeError string
  | SystemExit int
  | Exception string

text \<open>What a view function returns: a string, or a response object.\<close>

datatype rv = Rv_str string | Rv_response response

text \<open>
  The function objects that get registered as views: the module's \<open>hello_blue\<close> and the
  static-file view that the constructor of the library registers by itself.
\<close>

datatype view = View_hello_blue | View_static

fun view_name :: "view \<Rightarrow> string" where
  "view_name View_hello_blue = ''hello_blue''"
| "view_name View_static = ''<lambda>''"

text \<open>
  Modelled from the library: a URL rule is a fixed path (\<open>"/"\<close>), or a prefix followed
  by one \<open>path\<close> converter (\<open>"/static/<path:filename>"\<close>), which takes a non-empty rest
  that does not start with a slash. Matching yields the view arguments.
\<close>

datatype pattern = Fixed string | With_path string

fun match_pattern :: "pattern \<Rightarrow> string \<Rightarrow> string list option" where
  "match_pattern (Fixed s) p = (if p = s then Some [] else None)"
| "match_pattern (With_path pre) p =
     (if take (length pre) p = pre then
        (case drop (length pre) p of
           [] \<Rightarrow> None
         | c # cs \<Rightarrow> if c = CHR ''/'' then None else Some [c # cs])
      else None)"

record rule =
  rule_pattern :: pattern
  rule_methods :: "string set"
  rule_endpoint :: string
  provide_automatic_options :: bool

record flask =
  import_name :: string
  url_map :: "rule list"
  view_functions :: "string \<rightharpoonup> view"

subsection \<open>The process\<close>

datatype server_state = Stopped | Listening host port

text \<open>
  The state of the process: the module global \<open>app\<close>, the state of the server, the bind
  calls made so far, the lines written to standard error, and the exit status once the
  process has ended. \<open>answered\<close> counts the requests the server has answered; it is not a
  variable of the program but the position at which the clock of the surroundings is
  read. Standard output is not part of the state.
\<close>

record process =
  app :: "flask option"
  server :: server_state
  bind_calls :: "(host \<times> port) list"
  stderr :: "string list"
  exit_status :: "int option"
  answered :: nat

definition initial :: process where
  "initial = \<lparr>app = None, server = Stopped, bind_calls = [], stderr = [],
              exit_status = None, answered = 0\<rparr>"

text \<open>
  The surroundings of the process.
  \<^item> \<open>os_bind h pt\<close> is \<open>None\<close> when the operating system binds the socket and
    \<open>Some msg\<close> when it refuses (address in use, permission denied), \<open>msg\<close> being the
    system's error text; \<open>port_hint h pt\<close> are the further lines the library prints
    after that text (for an address in use, a line about the port).
  \<^item> \<open>run_from_cli\<close> says that the environment variable \<open>FLASK_RUN_FROM_CLI\<close> is
    \<open>true\<close>.
  \<^item> \<open>startup_log h pt\<close> are the lines the server logs when it starts.
  \<^item> \<open>error_page c\<close> is the body of the library's page for the HTTP status \<open>c\<close>,
    \<open>redirect_page u\<close> the body of its page for a redirect to \<open>u\<close>.
  \<^item> \<open>static_file req f\<close> is what the library's static-file view answers for \<open>f\<close>.
  \<^item> \<open>traceback x\<close> are the lines that report the exception \<open>x\<close>.
  \<^item> \<open>clock n\<close> is the date the clock shows when the server answers its request number
    \<open>n\<close>, and \<open>access_log n req c\<close> the line the server logs for that request and the
    status \<open>c\<close>.
\<close>

record env =
  os_bind :: "host \<Rightarrow> port \<Rightarrow> string option"
  port_hint :: "host \<Rightarrow> port \<Rightarrow> string list"
  run_from_cli :: bool
  startup_log :: "host \<Rightarrow> port \<Rightarrow> string list"
  error_page :: "int \<Rightarrow> string"
  redirect_page :: "string \<Rightarrow> string"
  static_file :: "request \<Rightarrow> string \<Rightarrow> exn + response"
  traceback :: "exn \<Rightarrow> string list"
  clock :: "nat \<Rightarrow> string"
  access_log :: "nat \<Rightarrow> request \<Rightarrow> int \<Rightarrow> string"

subsection \<open>The handler\<close>

text \<open>
  Embedded from the source:
  \<^verbatim>\<open>def hello_blue(): return "<h1 style='color:blue'>Hello, green!</h1>"\<close>
  The function takes no argument and has one statement. It is given the process state and
  returns it, so that what it leaves unchanged can be stated.
\<close>

definition hello_blue :: "process \<Rightarrow> (exn + rv) \<times> process" where
  "hello_blue p = (Inr (Rv_str ''<h1 style='color:blue'>Hello, green!</h1>''), p)"

subsection \<open>The library operations the module calls\<close>

text \<open>
  Modelled from the library: \<open>Flask.add_url_rule\<close>. With no \<open>methods\<close> argument the
  methods are \<open>GET\<close>; \<open>OPTIONS\<close> is added, and answered automatically, unless the caller
  listed it; the rule adds \<open>HEAD\<close> when \<open>GET\<close> is present. Registering a second,
  different function under an endpoint raises \<open>AssertionError\<close>.
\<close>

definition add_url_rule ::
  "pattern \<Rightarrow> string \<Rightarrow> view \<Rightarrow> string set option \<Rightarrow> flask \<Rightarrow> exn + flask" where
  "add_url_rule pat endpoint view_func methods_arg a =
     (let methods = (case methods_arg of None \<Rightarrow> {''GET''} | Some ms \<Rightarrow> ms);
          automatic = (''OPTIONS'' \<notin> methods);
          methods1 = (if automatic then insert ''OPTIONS'' methods else methods);
          methods2 = (if ''GET'' \<in> methods1 \<and> ''HEAD'' \<notin> methods1
                      then insert ''HEAD'' methods1 else methods1);
          r = \<lparr>rule_pattern = pat, rule_methods = methods2, rule_endpoint = endpoint,
               provide_automatic_options = automatic\<rparr>
      in case view_functions a endpoint of
           None \<Rightarrow>
             Inr (a\<lparr>url_map := url_map a @ [r],
                    view_functions := (view_functions a)(endpoint \<mapsto> view_func)\<rparr>)
         | Some old_func \<Rightarrow>
             if old_func \<noteq> view_func
             then Inl (AssertionError
                   ''View function mapping is overwriting an existing endpoint function'')
             else Inr (a\<lparr>url_map := url_map a @ [r],
                         view_functions := (view_functions a)(endpoint \<mapsto> view_func)\<rparr>))"

text \<open>
  Modelled from the library: \<open>Flask(import_name)\<close>, a new application; the constructor
  registers the static-file rule under the endpoint \<open>static\<close>.
\<close>

definition Flask :: "string \<Rightarrow> exn + flask" where
  "Flask name =
     add_url_rule (With_path ''/static/'') ''static'' View_static None
       \<lparr>import_name = name, url_map = [], view_functions = Map.empty\<rparr>"

text \<open>
  Modelled from the library: \<open>@app.route(rule)\<close> applied to a function is
  \<open>add_url_rule\<close> with the function's name as the endpoint and no \<open>methods\<close> argument.
\<close>

definition route :: "pattern \<Rightarrow> view \<Rightarrow> flask \<Rightarrow> exn + flask" where
  "route pat f a = add_url_rule pat (view_name f) f None a"

text \<open>
  Modelled from the library: \<open>Flask.run(host, port)\<close> with the development server of
  Werkzeug. When \<open>FLASK_RUN_FROM_CLI\<close> is \<open>true\<close> the call returns at once and binds
  nothing. Otherwise it makes one bind call. When the operating system refuses, the
  library itself prints the system's error text and its hint and leaves by
  \<open>sys.exit(1)\<close>; nothing is raised for the bind error as such. When the socket is
  bound the server logs its start and listens; the state returned in that case is the
  state in which the call blocks, serving.
\<close>

definition run :: "env \<Rightarrow> host \<Rightarrow> port \<Rightarrow> process \<Rightarrow> (exn + unit) \<times> process" where
  "run e h pt p =
     (if run_from_cli e then (Inr (), p)
      else
        (let p1 = p\<lparr>bind_calls := bind_calls p @ [(h, pt)]\<rparr>
         in case os_bind e h pt of
              Some msg \<Rightarrow>
                (Inl (SystemExit 1), p1\<lparr>stderr := stderr p1 @ msg # port_hint e h pt\<rparr>)
            | None \<Rightarrow>
                (Inr (), p1\<lparr>server := Listening h pt,
                            stderr := stderr p1 @ startup_log e h pt\<rparr>)))"

subsection \<open>Dispatch of a request\<close>

text \<open>
  Modelled from the library: the router of Werkzeug, for HTTP requests and rules with
  the default options (strict slashes, merged slashes).

  The path that is matched is the raw path with its leading slashes replaced by one; an
  empty raw path stays empty.
\<close>

definition path_part :: "string \<Rightarrow> string" where
  "path_part path_info =
     (if path_info = [] then [] else CHR ''/'' # dropWhile (\<lambda>c. c = CHR ''/'') path_info)"

text \<open>Two adjacent slashes become one, from left to right.\<close>

fun merge_slashes :: "string \<Rightarrow> string" where
  "merge_slashes (a # b # cs) =
     (if a = CHR ''/'' \<and> b = CHR ''/'' then CHR ''/'' # merge_slashes cs
      else a # merge_slashes (b # cs))"
| "merge_slashes cs = cs"

text \<open>
  The rules are searched for one whose pattern matches the path. A rule that matches the
  path but not the method contributes its methods to the methods reported by
  \<open>MethodNotAllowed\<close>.
\<close>

fun find_rule ::
  "rule list \<Rightarrow> string \<Rightarrow> string \<Rightarrow> string set \<Rightarrow> (rule \<times> string list) option \<times> string set"
  where
  "find_rule [] m p have = (None, have)"
| "find_rule (r # rs) m p have =
     (case match_pattern (rule_pattern r) p of
        None \<Rightarrow> find_rule rs m p have
      | Some args \<Rightarrow>
          if m \<in> rule_methods r then (Some (r, args), have)
          else find_rule rs m p (have \<union> rule_methods r))"

text \<open>
  Whether a rule for the path followed by a slash takes the method: the path is then
  redirected to the one with the slash.
\<close>

fun slash_required :: "rule list \<Rightarrow> string \<Rightarrow> string \<Rightarrow> bool" where
  "slash_required [] m p = False"
| "slash_required (r # rs) m p =
     ((rule_pattern r = Fixed (p @ ''/'') \<and> m \<in> rule_methods r) \<or> slash_required rs m p)"

text \<open>
  Matching: the rule found for the path; else a redirect to the path with a slash; else
  the same two attempts with the slashes merged, where a rule found means a redirect to
  the merged path; else \<open>MethodNotAllowed\<close> when some rule matched the path, and
  \<open>NotFound\<close> when none did.
\<close>

definition match_url :: "rule list \<Rightarrow> string \<Rightarrow> string \<Rightarrow> exn + (rule \<times> string list)" where
  "match_url rules m path_info =
     (let p = path_part path_info
      in case find_rule rules m p {} of
           (Some found, have) \<Rightarrow> Inr found
         | (None, have) \<Rightarrow>
             if slash_required rules m p then Inl (RequestRedirect (p @ ''/''))
             else
               (let p2 = merge_slashes p
                in case find_rule rules m p2 have of
                     (Some found, have2) \<Rightarrow> Inl (RequestRedirect p2)
                   | (None, have2) \<Rightarrow>
                       if slash_required rules m p2 then Inl (RequestRedirect (p2 @ ''/''))
                       else if have2 = {} then Inl NotFound
                       else Inl (MethodNotAllowed have2)))"

text \<open>
  Modelled from the library: the methods allowed for a path are those reported when it
  is matched with a method no rule has.
\<close>

definition allowed_methods :: "flask \<Rightarrow> string \<Rightarrow> string set" where
  "allowed_methods a p =
     (case match_url (url_map a) ''--'' p of
        Inl (MethodNotAllowed ms) \<Rightarrow> ms
      | _ \<Rightarrow> {})"

text \<open>Modelled from the library: the automatic answer to \<open>OPTIONS\<close>.\<close>

definition make_default_options_response :: "flask \<Rightarrow> request \<Rightarrow> response" where
  "make_default_options_response a req =
     \<lparr>status_code = 200, mimetype = ''text/html'',
      allow = allowed_methods a (req_path req), resp_data = ''''\<rparr>"

text \<open>
  Modelled from the library: what \<open>Flask.dispatch_request\<close> decides for a request: to
  raise the routing exception, to answer \<open>OPTIONS\<close> by itself, or to call a view
  function with the view arguments.
\<close>

datatype action = Raise exn | Automatic_options | Call view "string list"

definition route_request :: "flask \<Rightarrow> request \<Rightarrow> action" where
  "route_request a req =
     (case match_url (url_map a) (req_method req) (req_path req) of
        Inl e \<Rightarrow> Raise e
      | Inr (r, args) \<Rightarrow>
          if provide_automatic_options r \<and> req_method req = ''OPTIONS''
          then Automatic_options
          else (case view_functions a (rule_endpoint r) of
                  None \<Rightarrow> Raise (KeyError (rule_endpoint r))
                | Some v \<Rightarrow> Call v args))"

text \<open>
  Modelled from the library: a view is called with the view arguments as keyword
  arguments. \<open>hello_blue\<close> takes none, the static view takes the file name.
\<close>

definition call_view ::
  "env \<Rightarrow> view \<Rightarrow> request \<Rightarrow> string list \<Rightarrow> process \<Rightarrow> (exn + rv) \<times> process" where
  "call_view e v req args p =
     (case v of
        View_hello_blue \<Rightarrow>
          (case args of
             [] \<Rightarrow> hello_blue p
           | _ \<Rightarrow> (Inl (TypeError ''hello_blue() got an unexpected keyword argument''), p))
      | View_static \<Rightarrow>
          (case args of
             [f] \<Rightarrow> (case static_file e req f of
                       Inl x \<Rightarrow> (Inl x, p)
                     | Inr r \<Rightarrow> (Inr (Rv_response r), p))
           | _ \<Rightarrow> (Inl (TypeError ''send_static_file() argument mismatch''), p)))"

definition dispatch_request ::
  "env \<Rightarrow> flask \<Rightarrow> request \<Rightarrow> process \<Rightarrow> (exn + rv) \<times> process" where
  "dispatch_request e a req p =
     (case route_request a req of
        Raise x \<Rightarrow> (Inl x, p)
      | Automatic_options \<Rightarrow> (Inr (Rv_response (make_default_options_response a req)), p)
      | Call v args \<Rightarrow> call_view e v req args p)"

text \<open>
  Modelled from the library: a string returned by a view becomes a response with status
  200 and type text/html.
\<close>

definition make_response :: "rv \<Rightarrow> response" where
  "make_response r =
     (case r of
        Rv_str s \<Rightarrow> \<lparr>status_code = 200, mimetype = ''text/html'', allow = {}, resp_data = s\<rparr>
      | Rv_response x \<Rightarrow> x)"

text \<open>
  Modelled from the library: an HTTP exception is answered with the library's page for
  it, a redirect with status 308. Any other exception is an application error: it is
  logged and answered with status 500.
\<close>

fun http_exception :: "env \<Rightarrow> exn \<Rightarrow> response option" where
  "http_exception e NotFound =
     Some \<lparr>status_code = 404, mimetype = ''text/html'', allow = {},
           resp_data = error_page e 404\<rparr>"
| "http_exception e (MethodNotAllowed ms) =
     Some \<lparr>status_code = 405, mimetype = ''text/html'', allow = ms,
           resp_data = error_page e 405\<rparr>"
| "http_exception e (RequestRedirect u) =
     Some \<lparr>status_code = 308, mimetype = ''text/html'', allow = {},
           resp_data = redirect_page e u\<rparr>"
| "http_exception e _ = None"

text \<open>Modelled from the library: the body of a response to \<open>HEAD\<close> is not sent.\<close>

definition send :: "request \<Rightarrow> response \<Rightarrow> response" where
  "send req r = (if req_method req = ''HEAD'' then r\<lparr>resp_data := ''''\<rparr> else r)"

text \<open>Modelled from the library: \<open>Flask.wsgi_app\<close>, the application as the server calls it.\<close>

definition wsgi_app :: "env \<Rightarrow> flask \<Rightarrow> request \<Rightarrow> process \<Rightarrow> response \<times> process" where
  "wsgi_app e a req p =
     (case dispatch_request e a req p of
        (Inr r, p1) \<Rightarrow> (send req (make_response r), p1)
      | (Inl x, p1) \<Rightarrow>
          (case http_exception e x of
             Some r \<Rightarrow> (send req r, p1)
           | None \<Rightarrow>
               (send req \<lparr>status_code = 500, mimetype = ''text/html'', allow = {},
                          resp_data = error_page e 500\<rparr>,
                p1\<lparr>stderr := stderr p1 @ traceback e x\<rparr>)))"

subsection \<open>The module body and the life of the process\<close>

text \<open>
  Embedded from the source: the three top-level statements, in order. An exception ends
  the body at the statement that raised it: nothing in the module catches one.
\<close>

definition module_body :: "env \<Rightarrow> string \<Rightarrow> process \<Rightarrow> (exn + unit) \<times> process" where
  "module_body e name p =
     (case Flask name of
        Inl x \<Rightarrow> (Inl x, p)
      | Inr a0 \<Rightarrow>
          (let p1 = p\<lparr>app := Some a0\<rparr>
           in case route (Fixed ''/'') View_hello_blue a0 of
                Inl x \<Rightarrow> (Inl x, p1)
              | Inr a1 \<Rightarrow>
                  (let p2 = p1\<lparr>app := Some a1\<rparr>
                   in if name = ''__main__''
                      then run e ''0.0.0.0'' 5000 p2
                      else (Inr (), p2))))"

text \<open>The process state once the module body has run under the module name \<open>name\<close>.\<close>

definition loaded :: "env \<Rightarrow> string \<Rightarrow> process" where
  "loaded e name = snd (module_body e name initial)"

text \<open>
  Modelled from the Python runtime: running the module as a script, under the module
  name \<open>__main__\<close>. \<open>SystemExit\<close> ends the process with its status and prints nothing.
  Any other exception that leaves the module body is reported on standard error and the
  process ends with status 1. A body that ends without serving ends the process with
  status 0.
\<close>

definition python :: "env \<Rightarrow> process" where
  "python e =
     (case module_body e ''__main__'' initial of
        (Inl x, p) \<Rightarrow>
          (case x of
             SystemExit n \<Rightarrow> p\<lparr>exit_status := Some n\<rparr>
           | _ \<Rightarrow> p\<lparr>stderr := stderr p @ traceback e x, exit_status := Some 1\<rparr>)
      | (Inr u, p) \<Rightarrow>
          (case server p of
             Listening h pt \<Rightarrow> p
           | Stopped \<Rightarrow> p\<lparr>exit_status := Some 0\<rparr>))"

text \<open>
  Modelled from the library: the development server answers a request. Only a live
  process whose server listens answers; otherwise the client gets no response. The server
  puts the date of its clock on the response and writes one line about the request to
  standard error.
\<close>

definition connect :: "env \<Rightarrow> request \<Rightarrow> process \<Rightarrow> reply option \<times> process" where
  "connect e req p =
     (case server p of
        Stopped \<Rightarrow> (None, p)
      | Listening h pt \<Rightarrow>
          (case exit_status p of
             Some n \<Rightarrow> (None, p)
           | None \<Rightarrow>
               (case app p of
                  None \<Rightarrow> (None, p)
                | Some a \<Rightarrow>
                    (case wsgi_app e a req p of
                       (r, p1) \<Rightarrow>
                         (Some \<lparr>reply_date = clock e (answered p1), reply_response = r\<rparr>,
                          p1\<lparr>stderr := stderr p1 @
                                [access_log e (answered p1) req (status_code r)],
                              answered := Suc (answered p1)\<rparr>)))))"

fun serve :: "env \<Rightarrow> request list \<Rightarrow> process \<Rightarrow> reply option list \<times> process" where
  "serve e [] p = ([], p)"
| "serve e (req # reqs) p =
     (case connect e req p of
        (r, p1) \<Rightarrow> (case serve e reqs p1 of (rs, p2) \<Rightarrow> (r # rs, p2)))"

text \<open>Concrete surroundings and requests, for evaluating the model.\<close>

definition env_free :: env where
  "env_free =
     \<lparr>os_bind = (\<lambda>h pt. None), port_hint = (\<lambda>h pt. []), run_from_cli = False,
      startup_log = (\<lambda>h pt. [''Running on http://0.0.0.0:5000'']),
      error_page = (\<lambda>c. ''error''), redirect_page = (\<lambda>u. ''redirect''),
      static_file = (\<lambda>req f. Inl NotFound), traceback = (\<lambda>x. [''Traceback'']),
      clock = (\<lambda>n. if n = 0 then ''12:00:00'' else ''12:00:01''),
      access_log = (\<lambda>n req c. ''request'')\<rparr>"

definition env_busy :: env where
  "env_busy =
     \<lparr>os_bind = (\<lambda>h pt. Some ''Address already in use''),
      port_hint = (\<lambda>h pt. [''Port 5000 is in use by another program.'']),
      run_from_cli = False,
      startup_log = (\<lambda>h pt. [''Running on http://0.0.0.0:5000'']),
      error_page = (\<lambda>c. ''error''), redirect_page = (\<lambda>u. ''redirect''),
      static_file = (\<lambda>req f. Inl NotFound), traceback = (\<lambda>x. [''Traceback'']),
      clock = (\<lambda>n. ''12:00:00''), access_log = (\<lambda>n req c. ''request'')\<rparr>"

definition env_cli :: env where
  "env_cli = env_busy\<lparr>run_from_cli := True\<rparr>"

definition root_request :: "string \<Rightarrow> request" where
  "root_request m =
     \<lparr>req_method = m, req_path = ''/'', req_query_string = ''colour=red'',
      req_headers = [(''HTTP_ACCEPT'', ''*/*'')], req_data = ''ignored''\<rparr>"


section \<open>Properties\<close>

subsection \<open>The application the module builds\<close>

lemma module_body_value:
  "module_body e name p =
     (if name = ''__main__''
      then run e ''0.0.0.0'' 5000 (p\<lparr>app := Some
        \<lparr>import_name = name,
        url_map = [\<lparr>rule_pattern = With_path ''/static/'',
                    rule_methods = {''HEAD'', ''OPTIONS'', ''GET''},
                    rule_endpoint = ''static'', provide_automatic_options = True\<rparr>,
                   \<lparr>rule_pattern = Fixed ''/'',
                    rule_methods = {''HEAD'', ''OPTIONS'', ''GET''},
                    rule_endpoint = ''hello_blue'', provide_automatic_options = True\<rparr>],
        view_functions = [''static'' \<mapsto> View_static, ''hello_blue'' \<mapsto> View_hello_blue]\<rparr>\<rparr>)
      else (Inr (), p\<lparr>app := Some
        \<lparr>import_name = name,
        url_map = [\<lparr>rule_pattern = With_path ''/static/'',
                    rule_methods = {''HEAD'', ''OPTIONS'', ''GET''},
                    rule_endpoint = ''static'', provide_automatic_options = True\<rparr>,
                   \<lparr>rule_pattern = Fixed ''/'',
                    rule_methods = {''HEAD'', ''OPTIONS'', ''GET''},
                    rule_endpoint = ''hello_blue'', provide_automatic_options = True\<rparr>],
        view_functions = [''static'' \<mapsto> View_static, ''hello_blue'' \<mapsto> View_hello_blue]\<rparr>\<rparr>))"
  by (simp add: module_body_def Flask_def route_def add_url_rule_def Let_def)

lemma run_frame:
  "app (snd (run e h pt p)) = app p"
  "exit_status (snd (run e h pt p)) = exit_status p"
  "answered (snd (run e h pt p)) = answered p"
  "bind_calls (snd (run e h pt p)) =
     (if run_from_cli e then bind_calls p else bind_calls p @ [(h, pt)])"
  by (simp_all add: run_def Let_def split: option.splits)

lemma run_result:
  "run_from_cli e \<Longrightarrow> run e h pt p = (Inr (), p)"
  "\<not> run_from_cli e \<Longrightarrow> os_bind e h pt = None \<Longrightarrow>
     run e h pt p =
       (Inr (), p\<lparr>bind_calls := bind_calls p @ [(h, pt)], server := Listening h pt,
                  stderr := stderr p @ startup_log e h pt\<rparr>)"
  "\<not> run_from_cli e \<Longrightarrow> os_bind e h pt = Some msg \<Longrightarrow>
     run e h pt p =
       (Inl (SystemExit 1), p\<lparr>bind_calls := bind_calls p @ [(h, pt)],
                                stderr := stderr p @ msg # port_hint e h pt\<rparr>)"
  by (simp_all add: run_def Let_def)

lemma loaded_app:
  "app (loaded e name) = Some
        \<lparr>import_name = name,
        url_map = [\<lparr>rule_pattern = With_path ''/static/'',
                    rule_methods = {''HEAD'', ''OPTIONS'', ''GET''},
                    rule_endpoint = ''static'', provide_automatic_options = True\<rparr>,
                   \<lparr>rule_pattern = Fixed ''/'',
                    rule_methods = {''HEAD'', ''OPTIONS'', ''GET''},
                    rule_endpoint = ''hello_blue'', provide_automatic_options = True\<rparr>],
        view_functions = [''static'' \<mapsto> View_static, ''hello_blue'' \<mapsto> View_hello_blue]\<rparr>"
  by (simp add: loaded_def module_body_value run_frame)

lemma path_part_root: "path_part ''/'' = ''/''"
  by (simp add: path_part_def)

lemma root_match:
  assumes "app (loaded e name) = Some a" and "path_part path_info = ''/''"
  shows "match_url (url_map a) m path_info =
     (if m \<in> {''HEAD'', ''OPTIONS'', ''GET''}
      then Inr (\<lparr>rule_pattern = Fixed ''/'',
                    rule_methods = {''HEAD'', ''OPTIONS'', ''GET''},
                    rule_endpoint = ''hello_blue'', provide_automatic_options = True\<rparr>, [])
      else Inl (MethodNotAllowed {''HEAD'', ''OPTIONS'', ''GET''}))"
proof -
  have u: "url_map a = [\<lparr>rule_pattern = With_path ''/static/'',
                    rule_methods = {''HEAD'', ''OPTIONS'', ''GET''},
                    rule_endpoint = ''static'', provide_automatic_options = True\<rparr>,
                   \<lparr>rule_pattern = Fixed ''/'',
                    rule_methods = {''HEAD'', ''OPTIONS'', ''GET''},
                    rule_endpoint = ''hello_blue'', provide_automatic_options = True\<rparr>]"
    using assms(1) by (auto simp add: loaded_app)
  show ?thesis
    unfolding match_url_def u assms(2) by (auto simp add: Let_def)
qed

lemma root_route:
  assumes "app (loaded e name) = Some a" and "path_part (req_path req) = ''/''"
  shows "route_request a req =
     (if req_method req = ''GET'' \<or> req_method req = ''HEAD'' then Call View_hello_blue []
      else if req_method req = ''OPTIONS'' then Automatic_options
      else Raise (MethodNotAllowed {''HEAD'', ''OPTIONS'', ''GET''}))"
proof -
  have v: "view_functions a ''hello_blue'' = Some View_hello_blue"
    using assms(1) by (auto simp add: loaded_app)
  show ?thesis
    unfolding route_request_def root_match [OF assms]
    by (simp add: v)
qed

lemma root_allowed:
  assumes "app (loaded e name) = Some a" and "path_part path_info = ''/''"
  shows "allowed_methods a path_info = {''HEAD'', ''OPTIONS'', ''GET''}"
  unfolding allowed_methods_def root_match [OF assms] by simp

lemma root_wsgi:
  assumes "app (loaded e name) = Some a" and "path_part (req_path req) = ''/''"
  shows "wsgi_app e a req p =
     (if req_method req = ''GET'' then
        (\<lparr>status_code = 200, mimetype = ''text/html'', allow = {},
          resp_data = ''<h1 style='color:blue'>Hello, green!</h1>''\<rparr>, p)
      else if req_method req = ''HEAD'' then
        (\<lparr>status_code = 200, mimetype = ''text/html'', allow = {}, resp_data = ''''\<rparr>, p)
      else if req_method req = ''OPTIONS'' then
        (\<lparr>status_code = 200, mimetype = ''text/html'',
          allow = {''HEAD'', ''OPTIONS'', ''GET''}, resp_data = ''''\<rparr>, p)
      else
        (\<lparr>status_code = 405, mimetype = ''text/html'',
          allow = {''HEAD'', ''OPTIONS'', ''GET''}, resp_data = error_page e 405\<rparr>, p))"
  unfolding wsgi_app_def dispatch_request_def root_route [OF assms]
  by (simp add: call_view_def hello_blue_def make_response_def send_def
      make_default_options_response_def root_allowed [OF assms])

lemma call_view_frame:
  "app (snd (call_view e v req args p)) = app p"
  "server (snd (call_view e v req args p)) = server p"
  "bind_calls (snd (call_view e v req args p)) = bind_calls p"
  "exit_status (snd (call_view e v req args p)) = exit_status p"
  "answered (snd (call_view e v req args p)) = answered p"
  by (simp_all add: call_view_def hello_blue_def split: view.splits list.splits sum.splits)

lemma dispatch_request_frame:
  "app (snd (dispatch_request e a req p)) = app p"
  "server (snd (dispatch_request e a req p)) = server p"
  "bind_calls (snd (dispatch_request e a req p)) = bind_calls p"
  "exit_status (snd (dispatch_request e a req p)) = exit_status p"
  "answered (snd (dispatch_request e a req p)) = answered p"
  by (simp_all add: dispatch_request_def call_view_frame split: action.splits)

lemma wsgi_app_frame:
  "app (snd (wsgi_app e a req p)) = app p"
  "server (snd (wsgi_app e a req p)) = server p"
  "bind_calls (snd (wsgi_app e a req p)) = bind_calls p"
  "exit_status (snd (wsgi_app e a req p)) = exit_status p"
  "answered (snd (wsgi_app e a req p)) = answered p"
proof -
  obtain x p1 where d: "dispatch_request e a req p = (x, p1)"
    by (cases "dispatch_request e a req p")
  have f: "app p1 = app p" "server p1 = server p" "bind_calls p1 = bind_calls p"
    "exit_status p1 = exit_status p" "answered p1 = answered p"
    using dispatch_request_frame [of e a req p] by (simp_all add: d)
  show "app (snd (wsgi_app e a req p)) = app p"
    "server (snd (wsgi_app e a req p)) = server p"
    "bind_calls (snd (wsgi_app e a req p)) = bind_calls p"
    "exit_status (snd (wsgi_app e a req p)) = exit_status p"
    "answered (snd (wsgi_app e a req p)) = answered p"
    by (simp_all add: wsgi_app_def d f split: sum.splits option.splits)
qed

lemma connect_frame:
  "app (snd (connect e req p)) = app p"
  "server (snd (connect e req p)) = server p"
  "bind_calls (snd (connect e req p)) = bind_calls p"
  "exit_status (snd (connect e req p)) = exit_status p"
proof -
  have "app (snd (connect e req p)) = app p \<and> server (snd (connect e req p)) = server p \<and>
    bind_calls (snd (connect e req p)) = bind_calls p \<and>
    exit_status (snd (connect e req p)) = exit_status p"
  proof (cases "\<exists>h pt a. server p = Listening h pt \<and> exit_status p = None \<and> app p = Some a")
    case True
    then obtain h pt a where l: "server p = Listening h pt" "exit_status p = None" "app p = Some a"
      by blast
    obtain r p1 where w: "wsgi_app e a req p = (r, p1)" by (cases "wsgi_app e a req p")
    have "snd (connect e req p) =
      p1\<lparr>stderr := stderr p1 @ [access_log e (answered p1) req (status_code r)],
         answered := Suc (answered p1)\<rparr>"
      by (simp add: connect_def l w)
    then show ?thesis using wsgi_app_frame [of e a req p] by (simp add: w)
  next
    case False
    then have "connect e req p = (None, p)"
      by (auto simp add: connect_def split: server_state.splits option.splits)
    then show ?thesis by simp
  qed
  then show "app (snd (connect e req p)) = app p"
    "server (snd (connect e req p)) = server p"
    "bind_calls (snd (connect e req p)) = bind_calls p"
    "exit_status (snd (connect e req p)) = exit_status p"
    by simp_all
qed

lemma serve_frame:
  "app (snd (serve e reqs p)) = app p \<and> server (snd (serve e reqs p)) = server p \<and>
   bind_calls (snd (serve e reqs p)) = bind_calls p \<and>
   exit_status (snd (serve e reqs p)) = exit_status p"
proof (induction reqs arbitrary: p)
  case Nil
  show ?case by simp
next
  case (Cons req reqs)
  obtain r p1 where c: "connect e req p = (r, p1)" by (cases "connect e req p")
  obtain rs p2 where s: "serve e reqs p1 = (rs, p2)" by (cases "serve e reqs p1")
  have "snd (serve e (req # reqs) p) = p2" by (simp add: c s)
  moreover have "app p1 = app p" "server p1 = server p" "bind_calls p1 = bind_calls p"
    "exit_status p1 = exit_status p"
    using connect_frame [of e req p] by (simp_all add: c)
  moreover have "app p2 = app p1 \<and> server p2 = server p1 \<and> bind_calls p2 = bind_calls p1 \<and>
    exit_status p2 = exit_status p1"
    using Cons.IH [of p1] by (simp add: s)
  ultimately show ?case by simp
qed

lemma serve_stopped:
  assumes "server q = Stopped"
  shows "serve e reqs q = (replicate (length reqs) None, q)"
proof (induction reqs)
  case Nil
  show ?case by simp
next
  case (Cons r rs)
  have "connect e r q = (None, q)" by (simp add: connect_def assms)
  then show ?case by (simp add: Cons.IH)
qed

lemma loaded_value:
  "loaded e name =
     (if name = ''__main__'' \<and> \<not> run_from_cli e then
        (case os_bind e ''0.0.0.0'' 5000 of
           None \<Rightarrow>
             initial\<lparr>app := app (loaded e name), bind_calls := [(''0.0.0.0'', 5000)],
                     server := Listening ''0.0.0.0'' 5000,
                     stderr := startup_log e ''0.0.0.0'' 5000\<rparr>
         | Some msg \<Rightarrow>
             initial\<lparr>app := app (loaded e name), bind_calls := [(''0.0.0.0'', 5000)],
                     stderr := msg # port_hint e ''0.0.0.0'' 5000\<rparr>)
      else initial\<lparr>app := app (loaded e name)\<rparr>)"
  by (simp add: loaded_app)
    (simp add: loaded_def module_body_value run_def Let_def initial_def split: option.splits)

lemma python_value:
  "python e =
     (if run_from_cli e then (loaded e ''__main__'')\<lparr>exit_status := Some 0\<rparr>
      else
        (case os_bind e ''0.0.0.0'' 5000 of
           None \<Rightarrow> loaded e ''__main__''
         | Some msg \<Rightarrow> (loaded e ''__main__'')\<lparr>exit_status := Some 1\<rparr>))"
  by (simp add: python_def loaded_def module_body_value run_def initial_def Let_def
      split: option.splits)

lemma root_path: "req_path req = ''/'' \<Longrightarrow> path_part (req_path req) = ''/''"
  by (simp add: path_part_def)

subsection \<open>The fixed response\<close>




subsection \<open>Failure to bind\<close>

text \<open>
  Claim C2 as stated fails when the environment variable \<open>FLASK_RUN_FROM_CLI\<close> is
  \<open>true\<close>: the address is in use, and yet the script makes no bind call, prints no
  diagnostic and ends with status 0.
\<close>

theorem bind_failure_counterexample:
  "os_bind env_cli ''0.0.0.0'' 5000 = Some ''Address already in use'' \<and>
   fst (module_body env_cli ''__main__'' initial) = Inr () \<and>
   bind_calls (python env_cli) = [] \<and>
   stderr (python env_cli) = [] \<and>
   exit_status (python env_cli) = Some 0"
proof -
  have c: "run_from_cli env_cli" by (simp add: env_cli_def)
  have b: "os_bind env_cli ''0.0.0.0'' 5000 = Some ''Address already in use''"
    by (simp add: env_cli_def env_busy_def)
  have m: "fst (module_body env_cli ''__main__'' initial) = Inr ()"
    by (simp add: module_body_value run_result(1) [OF c])
  have l: "loaded env_cli ''__main__'' = initial\<lparr>app := app (loaded env_cli ''__main__'')\<rparr>"
    by (subst loaded_value) (simp add: c)
  have p: "python env_cli = (loaded env_cli ''__main__'')\<lparr>exit_status := Some 0\<rparr>"
    by (simp add: python_value c)
  have "bind_calls (python env_cli) = []" "stderr (python env_cli) = []"
    "exit_status (python env_cli) = Some 0"
    by (subst p, subst l, simp add: initial_def)+
  then show ?thesis using b m by simp
qed

text \<open>
  Claim C2, amended. Unless \<open>FLASK_RUN_FROM_CLI\<close> is \<open>true\<close>: when the operating
  system refuses to bind \<open>0.0.0.0:5000\<close>, the call of \<open>run\<close> in the script ends by
  \<open>sys.exit(1)\<close>, nothing catches it, and the process ends with status 1 after the
  system's message, followed by the library's hint, was written to standard error. The
  server never listens, one bind call was made (no retry, no other port), and no request
  is ever answered.
\<close>

theorem bind_failure_is_fatal:
  assumes "\<not> run_from_cli e"
    and "os_bind e ''0.0.0.0'' 5000 = Some msg"
  shows "fst (module_body e ''__main__'' initial) = Inl (SystemExit 1) \<and>
    exit_status (python e) = Some 1 \<and>
    stderr (python e) = msg # port_hint e ''0.0.0.0'' 5000 \<and>
    server (python e) = Stopped \<and>
    bind_calls (python e) = [(''0.0.0.0'', 5000)] \<and>
    serve e reqs (python e) = (replicate (length reqs) None, python e)"
proof -
  have b: "fst (module_body e ''__main__'' initial) = Inl (SystemExit 1)"
    by (simp add: module_body_value run_result(3) [OF assms])
  have p: "python e = (loaded e ''__main__'')\<lparr>exit_status := Some 1\<rparr>"
    by (simp add: python_value assms)
  have l: "loaded e ''__main__'' =
    initial\<lparr>app := app (loaded e ''__main__''), bind_calls := [(''0.0.0.0'', 5000)],
            stderr := msg # port_hint e ''0.0.0.0'' 5000\<rparr>"
    by (subst loaded_value) (simp add: assms)
  have s: "server (python e) = Stopped"
    by (subst p, subst l) (simp add: initial_def)
  have c: "bind_calls (python e) = [(''0.0.0.0'', 5000)]"
    by (subst p, subst l) simp
  have d: "stderr (python e) = msg # port_hint e ''0.0.0.0'' 5000"
    by (subst p, subst l) simp
  have x: "exit_status (python e) = Some 1"
    by (subst p) simp
  show ?thesis using b x d s c serve_stopped [OF s] by simp
qed

theorem bind_failure_is_fatal_witness:
  "fst (module_body env_busy ''__main__'' initial) = Inl (SystemExit 1) \<and>
    exit_status (python env_busy) = Some 1 \<and>
    stderr (python env_busy) =
      [''Address already in use'', ''Port 5000 is in use by another program.''] \<and>
    server (python env_busy) = Stopped \<and>
    bind_calls (python env_busy) = [(''0.0.0.0'', 5000)] \<and>
    serve env_busy [root_request ''GET'', root_request ''GET''] (python env_busy) =
      (replicate (length [root_request ''GET'', root_request ''GET'']) None, python env_busy)"
proof -
  have c: "\<not> run_from_cli env_busy" by (simp add: env_busy_def)
  have h: "os_bind env_busy ''0.0.0.0'' 5000 = Some ''Address already in use''"
    by (simp add: env_busy_def)
  have t: "port_hint env_busy ''0.0.0.0'' 5000 = [''Port 5000 is in use by another program.'']"
    by (simp add: env_busy_def)
  show ?thesis
    using bind_failure_is_fatal [OF c h, of "[root_request ''GET'', root_request ''GET'']"]
    by (simp only: t)
qed

subsection \<open>Other methods on the root path\<close>




subsection \<open>Repeated requests\<close>







subsection \<open>The route table\<close>

text \<open>
  Claim C5. The application the module builds has exactly one rule that matches the path
  \<open>/\<close> with the method \<open>GET\<close>, hence at most one. It is made by the module body;
  neither \<open>run\<close> nor the handling of any request changes the application, so it is the
  same after any sequence of requests.
\<close>

theorem single_root_registration:
  "(\<exists>a. app (loaded e name) = Some a \<and>
      length (filter (\<lambda>r. match_pattern (rule_pattern r) ''/'' \<noteq> None \<and>
                           ''GET'' \<in> rule_methods r) (url_map a)) = 1) \<and>
   app (snd (run e h pt p)) = app p \<and>
   app (snd (wsgi_app e b req p)) = app p \<and>
   app (snd (connect e req p)) = app p \<and>
   app (snd (serve e reqs p)) = app p \<and>
   app (snd (serve e reqs (python e))) = app (loaded e ''__main__'')"
proof -
  have "app (python e) = app (loaded e ''__main__'')"
    by (simp add: python_value split: option.splits)
  then show ?thesis
    using serve_frame [of e reqs p] serve_frame [of e reqs "python e"]
    by (simp add: loaded_app run_frame(1) wsgi_app_frame(1) connect_frame(1))
qed

theorem single_root_registration_witness:
  "(\<exists>a. app (loaded env_free ''__main__'') = Some a \<and>
      length (filter (\<lambda>r. match_pattern (rule_pattern r) ''/'' \<noteq> None \<and>
                           ''GET'' \<in> rule_methods r) (url_map a)) = 1) \<and>
   app (snd (serve env_free [root_request ''GET'', root_request ''DELETE''] (python env_free)))
     = app (loaded env_free ''__main__'')"
  using single_root_registration [of env_free "''__main__''" "''0.0.0.0''" 5000 initial
      "the (app (loaded env_free ''__main__''))" "root_request ''GET''"
      "[root_request ''GET'', root_request ''DELETE'']"]
  by blast

subsection \<open>The handler has no effect and cannot fail\<close>

lemma hello_blue_route:
  assumes "app (loaded e name) = Some a"
    and "route_request a req = Call View_hello_blue args"
  shows "path_part (req_path req) = ''/''" and "args = []"
    and "req_method req = ''GET'' \<or> req_method req = ''HEAD''"
proof -
  have v: "view_functions a ''hello_blue'' = Some View_hello_blue"
    "url_map a = [\<lparr>rule_pattern = With_path ''/static/'',
                  rule_methods = {''HEAD'', ''OPTIONS'', ''GET''},
                  rule_endpoint = ''static'', provide_automatic_options = True\<rparr>,
                 \<lparr>rule_pattern = Fixed ''/'',
                  rule_methods = {''HEAD'', ''OPTIONS'', ''GET''},
                  rule_endpoint = ''hello_blue'', provide_automatic_options = True\<rparr>]"
    "view_functions a ''static'' = Some View_static"
    using assms(1) by (auto simp add: loaded_app)
  show q: "path_part (req_path req) = ''/''"
    using assms(2) unfolding route_request_def match_url_def v(2)
    by (auto simp add: v(1,3) Let_def split: if_splits option.splits list.splits)
  from root_route [OF assms(1) q] assms(2)
  show "args = []" and "req_method req = ''GET'' \<or> req_method req = ''HEAD''"
    by (auto split: if_splits)
qed

text \<open>
  Claim C6. \<open>hello_blue\<close> returns the process state it was given: nothing is logged,
  no state is changed. The same holds for the whole handling of any request that is
  dispatched to it: only the response is produced.
\<close>

theorem hello_blue_no_side_effect:
  "snd (hello_blue p) = p \<and>
   (app (loaded e name) = Some a \<longrightarrow> route_request a req = Call View_hello_blue args \<longrightarrow>
      snd (call_view e View_hello_blue req args p) = p \<and>
      snd (dispatch_request e a req p) = p \<and>
      snd (wsgi_app e a req p) = p)"
proof -
  have h: "snd (hello_blue p) = p" by (simp add: hello_blue_def)
  have c: "snd (call_view e View_hello_blue req args p) = p"
    by (simp add: call_view_def hello_blue_def split: list.splits)
  have w: "snd (wsgi_app e a req p) = p \<and> snd (dispatch_request e a req p) = p"
    if a: "app (loaded e name) = Some a" and r: "route_request a req = Call View_hello_blue args"
  proof -
    have q: "path_part (req_path req) = ''/''" by (rule hello_blue_route(1) [OF a r])
    have d: "snd (dispatch_request e a req p) = p"
      by (simp add: dispatch_request_def r c)
    have "snd (wsgi_app e a req p) = p" by (simp add: root_wsgi [OF a q])
    then show ?thesis using d by simp
  qed
  show ?thesis using h c w by blast
qed

theorem hello_blue_no_side_effect_witness:
  "snd (hello_blue (python env_free)) = python env_free \<and>
   snd (wsgi_app env_free (the (app (loaded env_free ''__main__''))) (root_request ''GET'')
      (python env_free)) = python env_free"
proof -
  have h: "app (loaded env_free ''__main__'') = Some (the (app (loaded env_free ''__main__'')))"
    by (simp add: loaded_app)
  have q: "req_path (root_request ''GET'') = ''/''" by (simp add: root_request_def)
  have r: "route_request (the (app (loaded env_free ''__main__''))) (root_request ''GET'') =
    Call View_hello_blue []"
    by (simp add: root_route [OF h root_path [OF q]]) (simp add: root_request_def)
  show ?thesis
    using hello_blue_no_side_effect [of "python env_free" env_free "''__main__''"
        "the (app (loaded env_free ''__main__''))" "root_request ''GET''" "[]"] h r
    by blast
qed

text \<open>
  Claim C7. \<open>hello_blue\<close> always returns its string and never raises. Every request
  dispatched to it is answered with status 200, and no request for the path \<open>/\<close> is
  answered with the application error status 500 or logs an error.
\<close>

theorem hello_blue_cannot_fail:
  "fst (hello_blue p) = Inr (Rv_str ''<h1 style='color:blue'>Hello, green!</h1>'') \<and>
   (app (loaded e name) = Some a \<longrightarrow>
      (route_request a req = Call View_hello_blue args \<longrightarrow>
         fst (call_view e View_hello_blue req args p) =
           Inr (Rv_str ''<h1 style='color:blue'>Hello, green!</h1>'') \<and>
         status_code (fst (wsgi_app e a req p)) = 200) \<and>
      (req_path req = ''/'' \<longrightarrow>
         status_code (fst (wsgi_app e a req p)) \<noteq> 500 \<and>
         stderr (snd (wsgi_app e a req p)) = stderr p))"
proof -
  have h: "fst (hello_blue p) = Inr (Rv_str ''<h1 style='color:blue'>Hello, green!</h1>'')"
    by (simp add: hello_blue_def)
  have c: "fst (call_view e View_hello_blue req args p) =
      Inr (Rv_str ''<h1 style='color:blue'>Hello, green!</h1>'') \<and>
    status_code (fst (wsgi_app e a req p)) = 200"
    if a: "app (loaded e name) = Some a" and r: "route_request a req = Call View_hello_blue args"
  proof -
    have q: "path_part (req_path req) = ''/''" by (rule hello_blue_route(1) [OF a r])
    have n: "args = []" by (rule hello_blue_route(2) [OF a r])
    have m: "req_method req = ''GET'' \<or> req_method req = ''HEAD''"
      by (rule hello_blue_route(3) [OF a r])
    have "status_code (fst (wsgi_app e a req p)) = 200"
      using m by (auto simp add: root_wsgi [OF a q])
    then show ?thesis by (simp add: call_view_def n h)
  qed
  have s: "status_code (fst (wsgi_app e a req p)) \<noteq> 500 \<and>
    stderr (snd (wsgi_app e a req p)) = stderr p"
    if a: "app (loaded e name) = Some a" and q: "req_path req = ''/''"
    by (simp add: root_wsgi [OF a root_path [OF q]])
  show ?thesis using h c s by blast
qed

theorem hello_blue_cannot_fail_witness:
  "fst (hello_blue initial) = Inr (Rv_str ''<h1 style='color:blue'>Hello, green!</h1>'') \<and>
   status_code (fst (wsgi_app env_free (the (app (loaded env_free ''__main__'')))
      (root_request ''GET'') initial)) = 200 \<and>
   status_code (fst (wsgi_app env_free (the (app (loaded env_free ''__main__'')))
      (root_request ''GET'') initial)) \<noteq> 500 \<and>
   stderr (snd (wsgi_app env_free (the (app (loaded env_free ''__main__'')))
      (root_request ''GET'') initial)) = stderr initial"
proof -
  have h: "app (loaded env_free ''__main__'') = Some (the (app (loaded env_free ''__main__'')))"
    by (simp add: loaded_app)
  have q: "req_path (root_request ''GET'') = ''/''" by (simp add: root_request_def)
  have r: "route_request (the (app (loaded env_free ''__main__''))) (root_request ''GET'') =
    Call View_hello_blue []"
    by (simp add: root_route [OF h root_path [OF q]]) (simp add: root_request_def)
  show ?thesis
    using hello_blue_cannot_fail [of initial env_free "''__main__''"
        "the (app (loaded env_free ''__main__''))" "root_request ''GET''" "[]"] h q r
    by blast
qed

subsection \<open>Starting the server\<close>

text \<open>
  Claim C8 as stated fails when the environment variable \<open>FLASK_RUN_FROM_CLI\<close> is
  \<open>true\<close>: the script calls \<open>run\<close> with the host \<open>0.0.0.0\<close> and the port \<open>5000\<close>, and
  the call binds nothing; the server does not listen.
\<close>

theorem bind_address_counterexample:
  "run_from_cli env_cli \<and>
   bind_calls (snd (run env_cli ''0.0.0.0'' 5000 initial)) = [] \<and>
   bind_calls (python env_cli) = [] \<and>
   server (python env_cli) = Stopped"
proof -
  have c: "run_from_cli env_cli" by (simp add: env_cli_def)
  have l: "loaded env_cli ''__main__'' = initial\<lparr>app := app (loaded env_cli ''__main__'')\<rparr>"
    by (subst loaded_value) (simp add: c)
  have p: "python env_cli = (loaded env_cli ''__main__'')\<lparr>exit_status := Some 0\<rparr>"
    by (simp add: python_value c)
  have "bind_calls (python env_cli) = []" "server (python env_cli) = Stopped"
    by (subst p, subst l, simp add: initial_def)+
  then show ?thesis using c by (simp add: run_result(1) [OF c] initial_def)
qed

text \<open>
  Claim C8, amended. The script calls \<open>run\<close> with the host \<open>0.0.0.0\<close> and the port
  \<open>5000\<close> and with nothing else. Unless \<open>FLASK_RUN_FROM_CLI\<close> is \<open>true\<close>, that call
  makes exactly one bind call, for exactly that pair, and when the operating system
  accepts it the server listens on exactly that address. When the variable is \<open>true\<close>
  no bind call is made. No request adds a bind call.
\<close>

theorem bind_address_is_fixed:
  "module_body e ''__main__'' initial =
     run e ''0.0.0.0'' 5000 (initial\<lparr>app := app (loaded e ''__main__'')\<rparr>) \<and>
   bind_calls (loaded e name) =
     (if name = ''__main__'' \<and> \<not> run_from_cli e then [(''0.0.0.0'', 5000)] else []) \<and>
   bind_calls (python e) = (if run_from_cli e then [] else [(''0.0.0.0'', 5000)]) \<and>
   bind_calls (snd (serve e reqs (python e))) = bind_calls (python e) \<and>
   server (python e) =
     (if run_from_cli e then Stopped
      else (case os_bind e ''0.0.0.0'' 5000 of
              None \<Rightarrow> Listening ''0.0.0.0'' 5000
            | Some msg \<Rightarrow> Stopped))"
proof -
  have m: "module_body e ''__main__'' initial =
     run e ''0.0.0.0'' 5000 (initial\<lparr>app := app (loaded e ''__main__'')\<rparr>)"
    by (simp add: loaded_app) (simp add: module_body_value)
  have l: "bind_calls (loaded e n) =
    (if n = ''__main__'' \<and> \<not> run_from_cli e then [(''0.0.0.0'', 5000)] else [])" for n
    by (simp add: loaded_def module_body_value run_frame(4) initial_def)
  have p: "bind_calls (python e) = (if run_from_cli e then [] else [(''0.0.0.0'', 5000)])"
    by (simp add: python_value l split: option.splits)
  have s: "bind_calls (snd (serve e reqs (python e))) = bind_calls (python e)"
    using serve_frame [of e reqs "python e"] by simp
  have v: "server (python e) =
     (if run_from_cli e then Stopped
      else (case os_bind e ''0.0.0.0'' 5000 of
              None \<Rightarrow> Listening ''0.0.0.0'' 5000
            | Some msg \<Rightarrow> Stopped))"
    by (simp add: python_value loaded_def module_body_value run_def Let_def initial_def
        split: option.splits)
  show ?thesis using m l [of name] p s v by simp
qed

theorem bind_address_is_fixed_witness:
  "bind_calls (python env_free) = [(''0.0.0.0'', 5000)] \<and>
   server (python env_free) = Listening ''0.0.0.0'' 5000"
  using bind_address_is_fixed [of env_free "''__main__''" "[]"]
  by (simp add: env_free_def)

subsection \<open>The methods of the root rule\<close>



subsection \<open>Import without start\<close>

text \<open>
  Claim C10. A bind call is made only when the module name is \<open>__main__\<close> (and then
  unless \<open>FLASK_RUN_FROM_CLI\<close> is \<open>true\<close>). Under any other name the module body ends
  normally with the route registered, no bind call made, the server stopped, and a client
  that connects gets no response.
\<close>

theorem server_started_only_as_main:
  "(bind_calls (loaded e name) \<noteq> []) = (name = ''__main__'' \<and> \<not> run_from_cli e) \<and>
   (name \<noteq> ''__main__'' \<longrightarrow>
      module_body e name initial = (Inr (), loaded e name) \<and>
      server (loaded e name) = Stopped \<and>
      bind_calls (loaded e name) = [] \<and>
      stderr (loaded e name) = [] \<and>
      exit_status (loaded e name) = None \<and>
      connect e req (loaded e name) = (None, loaded e name) \<and>
      map_option (\<lambda>a. route_request a (root_request ''GET'')) (app (loaded e name)) =
        Some (Call View_hello_blue []))"
proof -
  have b: "(bind_calls (loaded e name) \<noteq> []) = (name = ''__main__'' \<and> \<not> run_from_cli e)"
    by (simp add: loaded_def module_body_value run_frame(4) initial_def)
  have i: "module_body e name initial = (Inr (), loaded e name) \<and>
      server (loaded e name) = Stopped \<and>
      bind_calls (loaded e name) = [] \<and>
      stderr (loaded e name) = [] \<and>
      exit_status (loaded e name) = None \<and>
      connect e req (loaded e name) = (None, loaded e name) \<and>
      map_option (\<lambda>a. route_request a (root_request ''GET'')) (app (loaded e name)) =
        Some (Call View_hello_blue [])"
    if n: "name \<noteq> ''__main__''"
  proof -
    obtain a where a: "app (loaded e name) = Some a" by (simp add: loaded_app)
    have q: "req_path (root_request ''GET'') = ''/''" by (simp add: root_request_def)
    have r: "route_request a (root_request ''GET'') = Call View_hello_blue []"
      by (simp add: root_route [OF a root_path [OF q]]) (simp add: root_request_def)
    have m: "module_body e name initial = (Inr (), loaded e name)"
      by (simp add: loaded_def module_body_value n)
    have s: "server (loaded e name) = Stopped" "bind_calls (loaded e name) = []"
      "stderr (loaded e name) = []" "exit_status (loaded e name) = None"
      by (simp_all add: loaded_def module_body_value n initial_def)
    have c: "connect e req (loaded e name) = (None, loaded e name)"
      by (simp add: connect_def s(1))
    show ?thesis using m s c by (simp add: a r)
  qed
  show ?thesis using b i by blast
qed

theorem server_started_only_as_main_witness:
  "module_body env_free ''app'' initial = (Inr (), loaded env_free ''app'') \<and>
   server (loaded env_free ''app'') = Stopped \<and>
   bind_calls (loaded env_free ''app'') = [] \<and>
   connect env_free (root_request ''GET'') (loaded env_free ''app'') =
     (None, loaded env_free ''app'') \<and>
   map_option (\<lambda>a. route_request a (root_request ''GET'')) (app (loaded env_free ''app'')) =
     Some (Call View_hello_blue [])"
proof -
  have n: "''app'' \<noteq> ''__main__''" by simp
  show ?thesis
    using server_started_only_as_main [of env_free "''app''" "root_request ''GET''"] n
    by blast
qed

end
